theory Spec2Isabelle
  imports Main
begin

section \<open>JavaScript values\<close>

text \<open>
  The request handlers of \<^verbatim>\<open>src/backend/src/routes/canvas.js\<close> read the fields of a parsed
  JSON (or form) body and test them with JavaScript's own operators: \<^verbatim>\<open>!v\<close>,
  \<^verbatim>\<open>v === undefined\<close>, \<^verbatim>\<open>a || b\<close>, \<^verbatim>\<open>parseInt(v)\<close>, default values in a destructuring
  pattern. The model keeps the scalar values of JavaScript. A string is the list of the
  bytes of its UTF-8 encoding. A number is \<^verbatim>\<open>NaN\<close> or \<open>Fin n\<close>, which stands for the
  double nearest to the integer \<open>n\<close> (round to nearest, ties to even): \<open>n\<close> itself up to
  \<open>2^53\<close> in magnitude, and \<^verbatim>\<open>Infinity\<close> or \<^verbatim>\<open>-Infinity\<close> from \<open>2^1024 - 2^970\<close> on.
  Fractional numbers, arrays and nested objects as field values are not covered.
\<close>

datatype number = NaN | Fin int

datatype jsval = JUndefined | JNull | JBool bool | JNum number | JStr string

text \<open>\<^verbatim>\<open>!v\<close> is \<open>\<not> truthy v\<close>: false, 0, NaN, the empty string, null and undefined are falsy.\<close>

fun truthy :: "jsval \<Rightarrow> bool" where
  "truthy JUndefined = False"
| "truthy JNull = False"
| "truthy (JBool b) = b"
| "truthy (JNum NaN) = False"
| "truthy (JNum (Fin n)) = (n \<noteq> 0)"
| "truthy (JStr s) = (s \<noteq> [])"

text \<open>A default in a destructuring pattern, \<^verbatim>\<open>{ color = '#000000' } = req.body\<close>, replaces
  \<^verbatim>\<open>undefined\<close> only (not \<^verbatim>\<open>null\<close>, not a falsy value).\<close>

fun default_to :: "jsval \<Rightarrow> jsval \<Rightarrow> jsval" where
  "default_to JUndefined d = d"
| "default_to v d = v"

text \<open>\<^verbatim>\<open>a || b\<close>\<close>

definition js_or :: "jsval \<Rightarrow> jsval \<Rightarrow> jsval" where
  "js_or a b = (if truthy a then a else b)"

subsection \<open>Doubles\<close>

text \<open>The magnitude of the double nearest to a natural number; \<open>None\<close> is
  \<^verbatim>\<open>Infinity\<close>. From \<open>2^53\<close> on a double is a multiple of a power of two with 53
  significant bits.\<close>

fun binary_length :: "nat \<Rightarrow> nat" where
  "binary_length n = (if n = 0 then 0 else Suc (binary_length (n div 2)))"

definition nearest_double :: "nat \<Rightarrow> nat option" where
  "nearest_double m =
     (if m < 2 ^ 53 then Some m
      else
        let u = 2 ^ (binary_length m - 53); q = m div u; r = m mod u;
            x = (if 2 * r < u \<or> (2 * r = u \<and> even q) then q * u else (q + 1) * u)
        in if x < 2 ^ 1024 then Some x else None)"

text \<open>
  From \<open>10^21\<close> on JavaScript prints a number in exponent notation, \<^verbatim>\<open>d.ddde+NN\<close>, with the
  fewest digits that still read back as the same double. Its first digit is the first
  digit of the double's own decimal expansion, unless the next number with a single
  non-zero digit (\<^verbatim>\<open>1e+23\<close> for the double 99999999999999991611392) rounds to the double:
  then it is that digit.
\<close>

fun decimal_length :: "nat \<Rightarrow> nat" where
  "decimal_length n = (if n < 10 then 1 else Suc (decimal_length (n div 10)))"

definition exponent_head :: "nat \<Rightarrow> nat" where
  "exponent_head x =
     (let p = 10 ^ (decimal_length x - 1); d = x div p
      in if nearest_double ((d + 1) * p) = Some x then (if d = 9 then 1 else d + 1) else d)"

subsection \<open>parseInt\<close>

text \<open>
  \<^verbatim>\<open>parseInt(v)\<close> converts \<open>v\<close> to a string, skips leading white space, reads an optional
  sign and an optional \<^verbatim>\<open>0x\<close> prefix, and then the longest run of digits of the radix;
  with no digit the result is \<^verbatim>\<open>NaN\<close>. The strings of \<^verbatim>\<open>undefined\<close>, \<^verbatim>\<open>null\<close>, a boolean,
  \<^verbatim>\<open>NaN\<close> and \<^verbatim>\<open>Infinity\<close> start with a letter, so they give \<^verbatim>\<open>NaN\<close>. An integer below
  \<open>10^21\<close> prints as its decimal digits and is read back unchanged; a larger one prints
  in exponent notation, of which \<^verbatim>\<open>parseInt\<close> reads the first digit only.

  White space is what JavaScript skips: the six ASCII characters, and U+00A0, U+1680,
  U+2000 to U+200A, U+2028, U+2029, U+202F, U+205F, U+3000 and U+FEFF, here in UTF-8.
\<close>

definition is_space :: "char \<Rightarrow> bool" where
  "is_space c = (c \<in> set [CHR '' '', CHR 0x09, CHR 0x0A, CHR 0x0B, CHR 0x0C, CHR 0x0D])"

definition wide_spaces :: "string list" where
  "wide_spaces =
     [[CHR 0xE1, CHR 0x9A, CHR 0x80],
      [CHR 0xE2, CHR 0x80, CHR 0x80], [CHR 0xE2, CHR 0x80, CHR 0x81],
      [CHR 0xE2, CHR 0x80, CHR 0x82], [CHR 0xE2, CHR 0x80, CHR 0x83],
      [CHR 0xE2, CHR 0x80, CHR 0x84], [CHR 0xE2, CHR 0x80, CHR 0x85],
      [CHR 0xE2, CHR 0x80, CHR 0x86], [CHR 0xE2, CHR 0x80, CHR 0x87],
      [CHR 0xE2, CHR 0x80, CHR 0x88], [CHR 0xE2, CHR 0x80, CHR 0x89],
      [CHR 0xE2, CHR 0x80, CHR 0x8A],
      [CHR 0xE2, CHR 0x80, CHR 0xA8], [CHR 0xE2, CHR 0x80, CHR 0xA9],
      [CHR 0xE2, CHR 0x80, CHR 0xAF], [CHR 0xE2, CHR 0x81, CHR 0x9F],
      [CHR 0xE3, CHR 0x80, CHR 0x80], [CHR 0xEF, CHR 0xBB, CHR 0xBF]]"

fun skip_space :: "string \<Rightarrow> string" where
  "skip_space [] = []"
| "skip_space [a] = (if is_space a then [] else [a])"
| "skip_space [a, b] =
     (if is_space a then skip_space [b]
      else if [a, b] = [CHR 0xC2, CHR 0xA0] then []
      else [a, b])"
| "skip_space (a # b # c # s) =
     (if is_space a then skip_space (b # c # s)
      else if [a, b] = [CHR 0xC2, CHR 0xA0] then skip_space (c # s)
      else if [a, b, c] \<in> set wide_spaces then skip_space s
      else a # b # c # s)"

definition digit_of :: "char \<Rightarrow> nat option" where
  "digit_of c =
     (let n = (of_char c :: nat) in
      if 48 \<le> n \<and> n \<le> 57 then Some (n - 48)
      else if 97 \<le> n \<and> n \<le> 122 then Some (n - 87)
      else if 65 \<le> n \<and> n \<le> 90 then Some (n - 55)
      else None)"

fun read_digits :: "nat \<Rightarrow> string \<Rightarrow> nat list" where
  "read_digits r [] = []"
| "read_digits r (c # cs) =
     (case digit_of c of
        None \<Rightarrow> []
      | Some d \<Rightarrow> if d < r then d # read_digits r cs else [])"

definition digits_value :: "nat \<Rightarrow> nat list \<Rightarrow> nat" where
  "digits_value r ds = foldl (\<lambda>a d. a * r + d) 0 ds"

definition parseInt_string :: "string \<Rightarrow> number" where
  "parseInt_string s =
     (let s1 = skip_space s;
          signed = (s1 \<noteq> [] \<and> (hd s1 = CHR ''-'' \<or> hd s1 = CHR ''+''));
          negative = (s1 \<noteq> [] \<and> hd s1 = CHR ''-'');
          s2 = (if signed then tl s1 else s1);
          hex = (take 2 s2 = ''0x'' \<or> take 2 s2 = ''0X'');
          r = (if hex then 16 else 10);
          ds = read_digits r (if hex then drop 2 s2 else s2)
      in if ds = [] then NaN
         else Fin ((if negative then - 1 else 1) * int (digits_value r ds)))"

fun parseInt_number :: "number \<Rightarrow> number" where
  "parseInt_number NaN = NaN"
| "parseInt_number (Fin n) =
     (case nearest_double (nat \<bar>n\<bar>) of
        None \<Rightarrow> NaN
      | Some x \<Rightarrow>
          if x < 10 ^ 21 then Fin (sgn n * int x)
          else Fin (sgn n * int (exponent_head x)))"

fun parseInt :: "jsval \<Rightarrow> number" where
  "parseInt (JStr s) = parseInt_string s"
| "parseInt (JNum n) = parseInt_number n"
| "parseInt v = NaN"

text \<open>Comparisons of a number with a literal (0 and 5000 in the handlers): every
  comparison with \<^verbatim>\<open>NaN\<close> is false, and rounding to the nearest double does not move a
  number across a literal that is itself a double.\<close>

fun num_le :: "number \<Rightarrow> int \<Rightarrow> bool" where
  "num_le (Fin n) k = (n \<le> k)"
| "num_le NaN k = False"

fun num_gt :: "number \<Rightarrow> int \<Rightarrow> bool" where
  "num_gt (Fin n) k = (n > k)"
| "num_gt NaN k = False"

subsection \<open>Conversion to a number\<close>

text \<open>
  The graphics library converts the arguments of a drawing call to numbers. Of the
  result the model keeps what the library looks at: whether it is finite (neither
  \<^verbatim>\<open>NaN\<close> nor infinite) and whether it is below zero. A string converts as a numeric
  literal between optional white space: decimal digits with an optional sign, fraction
  and exponent, or a \<^verbatim>\<open>0x\<close>, \<^verbatim>\<open>0o\<close> or \<^verbatim>\<open>0b\<close> literal; the empty string is 0, anything
  else is \<^verbatim>\<open>NaN\<close>. The value \<open>m * 10^e\<close> rounds to an infinity from \<open>2^1024 - 2^970\<close> on
  and to zero up to \<open>2^-1075\<close>.
\<close>

datatype sign_class = NotFinite | Negative | NonNegative

definition scaled_class :: "bool \<Rightarrow> nat \<Rightarrow> int \<Rightarrow> sign_class" where
  "scaled_class neg m e =
     (if m = 0 then NonNegative
      else if (if 0 \<le> e then 2 ^ 1024 - 2 ^ 970 \<le> m * 10 ^ nat e
               else (2 ^ 1024 - 2 ^ 970) * 10 ^ nat (- e) \<le> m)
      then NotFinite
      else if e < 0 \<and> m * 2 ^ 1075 \<le> 10 ^ nat (- e) then NonNegative
      else if neg then Negative else NonNegative)"

definition radix_literal_class :: "nat \<Rightarrow> string \<Rightarrow> sign_class" where
  "radix_literal_class r s =
     (let ds = read_digits r s; rest = drop (length ds) s
      in if ds = [] \<or> skip_space rest \<noteq> [] then NotFinite
         else if 2 ^ 1024 - 2 ^ 970 \<le> digits_value r ds then NotFinite
         else NonNegative)"

definition decimal_literal_class :: "string \<Rightarrow> sign_class" where
  "decimal_literal_class s =
     (let neg = (take 1 s = ''-'');
          s1 = (if take 1 s = ''-'' \<or> take 1 s = ''+'' then drop 1 s else s)
      in if take 8 s1 = ''Infinity'' then NotFinite
         else
           let ds1 = read_digits 10 s1; r1 = drop (length ds1) s1;
               dot = (take 1 r1 = ''.'');
               ds2 = (if dot then read_digits 10 (drop 1 r1) else []);
               r2 = (if dot then drop (Suc (length ds2)) r1 else r1);
               ex = (take 1 r2 = ''e'' \<or> take 1 r2 = ''E'');
               r3 = (if ex then drop 1 r2 else r2);
               eneg = (ex \<and> take 1 r3 = ''-'');
               r4 = (if ex \<and> (take 1 r3 = ''-'' \<or> take 1 r3 = ''+'') then drop 1 r3 else r3);
               es = (if ex then read_digits 10 r4 else []);
               r5 = drop (length es) r4
           in if ds1 @ ds2 = [] \<or> (ex \<and> es = []) \<or> skip_space r5 \<noteq> [] then NotFinite
              else scaled_class neg (digits_value 10 (ds1 @ ds2))
                     ((if eneg then - 1 else 1) * int (digits_value 10 es) - int (length ds2)))"

definition string_class :: "string \<Rightarrow> sign_class" where
  "string_class s =
     (let s1 = skip_space s
      in if s1 = [] then NonNegative
         else if take 2 s1 = ''0x'' \<or> take 2 s1 = ''0X'' then radix_literal_class 16 (drop 2 s1)
         else if take 2 s1 = ''0o'' \<or> take 2 s1 = ''0O'' then radix_literal_class 8 (drop 2 s1)
         else if take 2 s1 = ''0b'' \<or> take 2 s1 = ''0B'' then radix_literal_class 2 (drop 2 s1)
         else decimal_literal_class s1)"

fun number_class :: "jsval \<Rightarrow> sign_class" where
  "number_class JUndefined = NotFinite"
| "number_class JNull = NonNegative"
| "number_class (JBool b) = NonNegative"
| "number_class (JNum NaN) = NotFinite"
| "number_class (JNum (Fin n)) =
     (if nearest_double (nat \<bar>n\<bar>) = None then NotFinite
      else if n < 0 then Negative else NonNegative)"
| "number_class (JStr s) = string_class s"

text \<open>A request body: the value of each field, \<^verbatim>\<open>undefined\<close> for a field that is absent.\<close>

type_synonym body = "string \<Rightarrow> jsval"

definition no_fields :: body where
  "no_fields = (\<lambda>k. JUndefined)"


section \<open>The drawing surface\<close>

text \<open>
  The surface is a canvas of the graphics library (\<^verbatim>\<open>createCanvas\<close>, \<^verbatim>\<open>getContext('2d')\<close>).
  The handlers never read or write its pixels; they only issue calls on its one 2D
  context, whose state (fill style, path, font) persists from request to request. The
  model keeps a canvas as its pixel dimensions and the sequence of context calls made
  on it so far, each with the arguments the handler passed.
\<close>

type_synonym buffer = "nat list"

record image =
  natural_width :: int
  natural_height :: int
  image_data :: buffer

datatype ctx_call =
    SetFillStyle jsval
  | SetStrokeStyle jsval
  | SetLineWidth int
  | FillRect jsval jsval jsval jsval
  | StrokeRect jsval jsval jsval jsval
  | BeginPath
  | Arc jsval jsval jsval
  | Fill
  | Stroke
  | SetFont jsval jsval
  | SetTextAlign jsval
  | SetTextBaseline string
  | FillText jsval jsval jsval
  | DrawImage image jsval jsval jsval jsval

record canvas =
  cwidth :: nat
  cheight :: nat
  calls :: "ctx_call list"

text \<open>\<^verbatim>\<open>createCanvas(w, h)\<close>: the library converts each dimension to an unsigned 32-bit
  integer, which sends \<^verbatim>\<open>NaN\<close> and the infinities to 0.\<close>

fun to_uint32 :: "number \<Rightarrow> nat" where
  "to_uint32 NaN = 0"
| "to_uint32 (Fin n) =
     (case nearest_double (nat \<bar>n\<bar>) of
        None \<Rightarrow> 0
      | Some x \<Rightarrow> nat ((sgn n * int x) mod 2 ^ 32))"

definition createCanvas :: "number \<Rightarrow> number \<Rightarrow> canvas" where
  "createCanvas w h = \<lparr>cwidth = to_uint32 w, cheight = to_uint32 h, calls = []\<rparr>"

text \<open>The calls a handler makes on \<^verbatim>\<open>canvas.getContext('2d')\<close>, in order.\<close>

definition draw :: "canvas \<Rightarrow> ctx_call list \<Rightarrow> canvas" where
  "draw c cs = c\<lparr>calls := calls c @ cs\<rparr>"

text \<open>\<^verbatim>\<open>canvas.toBuffer('image/png')\<close> is a lossless snapshot of the surface: the model keeps
  the surface itself.\<close>

type_synonym png = canvas

definition toBuffer :: "canvas \<Rightarrow> png" where
  "toBuffer c = c"

subsection \<open>Pixels\<close>

text \<open>
  Modelled from the spec: the pixel contract of the Drawing Surface (the graphics
  library is not part of the repository's sources). The contract is written out for the
  calls whose result on the pixel grid does not depend on fonts, anti-aliasing or image
  decoding: a fresh canvas is transparent, its fill style is opaque black, and
  \<^verbatim>\<open>fillRect(x, y, w, h)\<close> with integer arguments (of magnitude up to a million) and
  positive size paints exactly the pixels \<open>x \<le> i < x + w\<close>, \<open>y \<le> j < y + h\<close> with
  the fill style. A fill style written \<^verbatim>\<open>#rrggbb\<close> is an opaque colour. An assignment
  to \<^verbatim>\<open>fillStyle\<close> of a value that is not a string (\<^verbatim>\<open>null\<close>, a number, a boolean) is
  ignored: the context keeps the fill style it has. For anything else the model answers
  \<open>Unknown\<close>: a fill style that is a string in another notation, and every pixel
  after a stroke, a path fill, a text run or an image. The handlers never set a
  transform, a clip, an alpha or a blend mode.
\<close>

datatype pixel = Unknown | Clear | Solid nat nat nat

record raster =
  fill_colour :: "(nat \<times> nat \<times> nat) option"
  pix :: "nat \<Rightarrow> nat \<Rightarrow> pixel"

definition hex_byte :: "char \<Rightarrow> char \<Rightarrow> nat option" where
  "hex_byte a b =
     (case digit_of a of
        None \<Rightarrow> None
      | Some h \<Rightarrow>
          (case digit_of b of
             None \<Rightarrow> None
           | Some l \<Rightarrow> if h < 16 \<and> l < 16 then Some (16 * h + l) else None))"

definition hex_colour :: "jsval \<Rightarrow> (nat \<times> nat \<times> nat) option" where
  "hex_colour v =
     (case v of
        JStr s \<Rightarrow>
          if length s = 7 \<and> s ! 0 = CHR ''#'' then
            (case hex_byte (s ! 1) (s ! 2) of
               None \<Rightarrow> None
             | Some r \<Rightarrow>
                 (case hex_byte (s ! 3) (s ! 4) of
                    None \<Rightarrow> None
                  | Some g \<Rightarrow>
                      (case hex_byte (s ! 5) (s ! 6) of
                         None \<Rightarrow> None
                       | Some b \<Rightarrow> Some (r, g, b))))
          else None
      | _ \<Rightarrow> None)"

definition ink :: "(nat \<times> nat \<times> nat) option \<Rightarrow> pixel" where
  "ink k = (case k of None \<Rightarrow> Unknown | Some (r, g, b) \<Rightarrow> Solid r g b)"

definition coordinate :: "int \<Rightarrow> bool" where
  "coordinate n = (\<bar>n\<bar> \<le> 1000000)"

definition in_box :: "int \<Rightarrow> int \<Rightarrow> int \<Rightarrow> int \<Rightarrow> nat \<Rightarrow> nat \<Rightarrow> bool" where
  "in_box x y w h i j = (x \<le> int i \<and> int i < x + w \<and> y \<le> int j \<and> int j < y + h)"

fun paint :: "raster \<Rightarrow> ctx_call \<Rightarrow> raster" where
  "paint r (SetFillStyle (JStr s)) = r\<lparr>fill_colour := hex_colour (JStr s)\<rparr>"
| "paint r (SetFillStyle v) = r"
| "paint r (FillRect (JNum (Fin x)) (JNum (Fin y)) (JNum (Fin w)) (JNum (Fin h))) =
     (if 0 < w \<and> 0 < h \<and> coordinate x \<and> coordinate y \<and> coordinate w \<and> coordinate h
      then r\<lparr>pix := (\<lambda>i j. if in_box x y w h i j then ink (fill_colour r) else pix r i j)\<rparr>
      else r\<lparr>pix := (\<lambda>i j. Unknown)\<rparr>)"
| "paint r (FillRect x y w h) = r\<lparr>pix := (\<lambda>i j. Unknown)\<rparr>"
| "paint r (StrokeRect x y w h) = r\<lparr>pix := (\<lambda>i j. Unknown)\<rparr>"
| "paint r Fill = r\<lparr>pix := (\<lambda>i j. Unknown)\<rparr>"
| "paint r Stroke = r\<lparr>pix := (\<lambda>i j. Unknown)\<rparr>"
| "paint r (FillText t x y) = r\<lparr>pix := (\<lambda>i j. Unknown)\<rparr>"
| "paint r (DrawImage img x y w h) = r\<lparr>pix := (\<lambda>i j. Unknown)\<rparr>"
| "paint r (SetStrokeStyle v) = r"
| "paint r (SetLineWidth n) = r"
| "paint r BeginPath = r"
| "paint r (Arc x y rad) = r"
| "paint r (SetFont fsize family) = r"
| "paint r (SetTextAlign a) = r"
| "paint r (SetTextBaseline b) = r"

definition fresh_raster :: raster where
  "fresh_raster = \<lparr>fill_colour = Some (0, 0, 0), pix = (\<lambda>i j. Clear)\<rparr>"

text \<open>The pixel in column \<open>i\<close> and row \<open>j\<close> of a canvas, for \<open>i < cwidth c\<close> and
  \<open>j < cheight c\<close>.\<close>

definition pixel_at :: "canvas \<Rightarrow> nat \<Rightarrow> nat \<Rightarrow> pixel" where
  "pixel_at c i j = pix (foldl paint fresh_raster (calls c)) i j"

definition white :: pixel where
  "white = Solid 255 255 255"

section \<open>Sessions and the registry\<close>

text \<open>An entry of an element log: the object a handler pushes, field by field. A field
  the object does not have reads as \<^verbatim>\<open>undefined\<close>.\<close>

datatype element =
    Rectangle (el_x: jsval) (el_y: jsval) (el_width: jsval) (el_height: jsval)
      (el_color: jsval) (el_isFilled: jsval)
  | Circle (el_x: jsval) (el_y: jsval) (el_radius: jsval) (el_color: jsval) (el_isFilled: jsval)
  | Text (el_text: jsval) (el_x: jsval) (el_y: jsval) (el_fontSize: jsval)
      (el_fontFamily: jsval) (el_color: jsval) (el_align: jsval)
  | Image (el_url: jsval) (el_x: jsval) (el_y: jsval) (el_width: jsval) (el_height: jsval)

record session =
  canvas :: canvas
  width :: number
  height :: number
  elements :: "element list"

text \<open>
  \<^verbatim>\<open>const canvases = {}\<close> is a plain object: \<^verbatim>\<open>canvases[id]\<close> finds the session stored
  under \<open>id\<close>, and otherwise what the object inherits from \<^verbatim>\<open>Object.prototype\<close> under
  that name (a function, or the prototype itself), which is truthy and has none of a
  session's fields. \<^verbatim>\<open>delete canvases[id]\<close> removes an own entry only. An assignment
  \<^verbatim>\<open>canvases[id] = v\<close> stores an own entry (for every \<open>id\<close> but \<^verbatim>\<open>__proto__\<close>, which no
  UUID is).
\<close>

type_synonym registry = "string \<rightharpoonup> session"

definition object_prototype_keys :: "string list" where
  "object_prototype_keys =
     [''constructor'', ''__defineGetter__'', ''__defineSetter__'', ''hasOwnProperty'',
      ''__lookupGetter__'', ''__lookupSetter__'', ''isPrototypeOf'',
      ''propertyIsEnumerable'', ''toString'', ''valueOf'', ''__proto__'',
      ''toLocaleString'']"

datatype lookup = Missing | Inherited | Own session

definition get_canvas :: "registry \<Rightarrow> string \<Rightarrow> lookup" where
  "get_canvas reg ident =
     (case reg ident of
        Some s \<Rightarrow> Own s
      | None \<Rightarrow> if ident \<in> set object_prototype_keys then Inherited else Missing)"

section \<open>Responses\<close>

text \<open>The document \<^verbatim>\<open>export/pdf\<close> streams: the options and the one image the handler
  gives to the PDF library, and the creation date the library stamps into the
  document's information dictionary when the document is created.\<close>

record pdf =
  page_size :: "number \<times> number"
  compress :: bool
  info_Title :: string
  info_Author :: string
  info_Creator :: string
  info_CreationDate :: nat
  page_image :: png
  image_at :: "int \<times> int"
  image_size :: "number \<times> number"

datatype reply =
    InitOk string number number
  | Message string
  | InfoOk string number number nat "element list"
  | PngOk png
  | PdfOk string pdf
  | Error nat string

section \<open>The request handlers\<close>

text \<open>\<^verbatim>\<open>POST /init\<close>. The identifier is the one \<^verbatim>\<open>uuidv4()\<close> returns.\<close>

definition init :: "string \<Rightarrow> registry \<Rightarrow> body \<Rightarrow> registry \<times> reply" where
  "init uuid reg body =
     (let width = body ''width''; height = body ''height'' in
      if \<not> truthy width \<or> \<not> truthy height
      then (reg, Error 400 ''Width and height are required'')
      else
        let w = parseInt width; h = parseInt height in
        if num_le w 0 \<or> num_le h 0
        then (reg, Error 400 ''Dimensions must be positive numbers'')
        else if num_gt w 5000 \<or> num_gt h 5000
        then (reg, Error 400 ''Dimensions cannot exceed 5000px'')
        else
          let ident = uuid;
              canvas = draw (createCanvas w h)
                [SetFillStyle (JStr ''#ffffff''),
                 FillRect (JNum (Fin 0)) (JNum (Fin 0)) (JNum w) (JNum h)]
          in (reg(ident \<mapsto> \<lparr>canvas = canvas, width = w, height = h, elements = []\<rparr>),
              InitOk ident w h))"

text \<open>\<^verbatim>\<open>POST /:id/add/rectangle\<close>\<close>

definition add_rectangle :: "registry \<Rightarrow> string \<Rightarrow> body \<Rightarrow> registry \<times> reply" where
  "add_rectangle reg ident body =
     (let x = body ''x''; y = body ''y''; width = body ''width''; height = body ''height'';
          color = default_to (body ''color'') (JStr ''#000000'');
          isFilled = default_to (body ''isFilled'') (JBool True)
      in case get_canvas reg ident of
           Missing \<Rightarrow> (reg, Error 404 ''Canvas not found'')
         | found \<Rightarrow>
             if x = JUndefined \<or> y = JUndefined \<or> \<not> truthy width \<or> \<not> truthy height
             then (reg, Error 400 ''x, y, width, and height are required'')
             else
               (case found of
                  Own s \<Rightarrow>
                    (reg(ident \<mapsto> s
                       \<lparr>canvas := draw (canvas s)
                          [SetFillStyle color, SetStrokeStyle color, SetLineWidth 2,
                           if truthy isFilled then FillRect x y width height
                           else StrokeRect x y width height],
                        elements := elements s @ [Rectangle x y width height color isFilled]\<rparr>),
                     Message ''Rectangle added successfully'')
                | _ \<Rightarrow> (reg, Error 500 ''Failed to add rectangle'')))"

text \<open>\<^verbatim>\<open>POST /:id/add/circle\<close>. \<^verbatim>\<open>ctx.arc(x, y, radius, 0, 2 * Math.PI)\<close> converts its
  arguments to numbers, does nothing when one of them is not finite, and otherwise
  throws a \<^verbatim>\<open>RangeError\<close> for a radius below zero. The handler has then called
  \<^verbatim>\<open>beginPath\<close> and nothing else, and its catch block answers 500.\<close>

definition arc_throws :: "jsval \<Rightarrow> jsval \<Rightarrow> jsval \<Rightarrow> bool" where
  "arc_throws x y radius =
     (number_class x \<noteq> NotFinite \<and> number_class y \<noteq> NotFinite
      \<and> number_class radius = Negative)"

definition add_circle :: "registry \<Rightarrow> string \<Rightarrow> body \<Rightarrow> registry \<times> reply" where
  "add_circle reg ident body =
     (let x = body ''x''; y = body ''y''; radius = body ''radius'';
          color = default_to (body ''color'') (JStr ''#000000'');
          isFilled = default_to (body ''isFilled'') (JBool True)
      in case get_canvas reg ident of
           Missing \<Rightarrow> (reg, Error 404 ''Canvas not found'')
         | found \<Rightarrow>
             if x = JUndefined \<or> y = JUndefined \<or> \<not> truthy radius
             then (reg, Error 400 ''x, y, and radius are required'')
             else
               (case found of
                  Own s \<Rightarrow>
                    if arc_throws x y radius
                    then (reg(ident \<mapsto> s\<lparr>canvas := draw (canvas s) [BeginPath]\<rparr>),
                          Error 500 ''Failed to add circle'')
                    else
                    (reg(ident \<mapsto> s
                       \<lparr>canvas := draw (canvas s)
                          [BeginPath, Arc x y radius, SetFillStyle color,
                           SetStrokeStyle color, SetLineWidth 2,
                           if truthy isFilled then Fill else Stroke],
                        elements := elements s @ [Circle x y radius color isFilled]\<rparr>),
                     Message ''Circle added successfully'')
                | _ \<Rightarrow> (reg, Error 500 ''Failed to add circle'')))"

text \<open>\<^verbatim>\<open>POST /:id/add/text\<close>. The font is the string \<^verbatim>\<open>`${fontSize}px ${fontFamily}`\<close>; the
  model keeps its two parts.\<close>

definition add_text :: "registry \<Rightarrow> string \<Rightarrow> body \<Rightarrow> registry \<times> reply" where
  "add_text reg ident body =
     (let text = body ''text''; x = body ''x''; y = body ''y'';
          fontSize = default_to (body ''fontSize'') (JNum (Fin 16));
          fontFamily = default_to (body ''fontFamily'') (JStr ''Arial'');
          color = default_to (body ''color'') (JStr ''#000000'');
          align = default_to (body ''align'') (JStr ''left'')
      in case get_canvas reg ident of
           Missing \<Rightarrow> (reg, Error 404 ''Canvas not found'')
         | found \<Rightarrow>
             if \<not> truthy text \<or> x = JUndefined \<or> y = JUndefined
             then (reg, Error 400 ''text, x, and y are required'')
             else
               (case found of
                  Own s \<Rightarrow>
                    (reg(ident \<mapsto> s
                       \<lparr>canvas := draw (canvas s)
                          [SetFont fontSize fontFamily, SetFillStyle color, SetTextAlign align,
                           SetTextBaseline ''top'', FillText text x y],
                        elements := elements s
                          @ [Text text x y fontSize fontFamily color align]\<rparr>),
                     Message ''Text added successfully'')
                | _ \<Rightarrow> (reg, Error 500 ''Failed to add text'')))"

text \<open>\<^verbatim>\<open>POST /:id/add/image\<close>. \<open>loadImage\<close> is the library's fetch and decode of the URL:
  \<open>None\<close> when the promise rejects.\<close>

definition add_image ::
  "(jsval \<Rightarrow> image option) \<Rightarrow> registry \<Rightarrow> string \<Rightarrow> body \<Rightarrow> registry \<times> reply" where
  "add_image loadImage reg ident body =
     (let url = body ''url''; x = body ''x''; y = body ''y'';
          width = body ''width''; height = body ''height''
      in case get_canvas reg ident of
           Missing \<Rightarrow> (reg, Error 404 ''Canvas not found'')
         | found \<Rightarrow>
             if \<not> truthy url \<or> x = JUndefined \<or> y = JUndefined
             then (reg, Error 400 ''url, x, and y are required'')
             else
               (case loadImage url of
                  None \<Rightarrow> (reg, Error 500 ''Failed to load or add image'')
                | Some img \<Rightarrow>
                    (case found of
                       Own s \<Rightarrow>
                         let drawWidth = js_or width (JNum (Fin (natural_width img)));
                             drawHeight = js_or height (JNum (Fin (natural_height img)))
                         in (reg(ident \<mapsto> s
                               \<lparr>canvas := draw (canvas s) [DrawImage img x y drawWidth drawHeight],
                                elements := elements s @ [Image url x y drawWidth drawHeight]\<rparr>),
                             Message ''Image added successfully'')
                     | _ \<Rightarrow> (reg, Error 500 ''Failed to load or add image''))))"

text \<open>\<^verbatim>\<open>POST /:id/add/image-upload\<close>. \<open>file\<close> is \<^verbatim>\<open>req.file\<close> (its buffer), \<open>None\<close> when the
  request carries no file; \<open>loadImage\<close> decodes the buffer.\<close>

definition add_image_upload ::
  "(buffer \<Rightarrow> image option) \<Rightarrow> registry \<Rightarrow> string \<Rightarrow> buffer option \<Rightarrow> body
     \<Rightarrow> registry \<times> reply" where
  "add_image_upload loadImage reg ident file body =
     (let x = default_to (body ''x'') (JNum (Fin 0));
          y = default_to (body ''y'') (JNum (Fin 0));
          width = body ''width''; height = body ''height''
      in case get_canvas reg ident of
           Missing \<Rightarrow> (reg, Error 404 ''Canvas not found'')
         | found \<Rightarrow>
             (case file of
                None \<Rightarrow> (reg, Error 400 ''Image file is required'')
              | Some buf \<Rightarrow>
                  (case loadImage buf of
                     None \<Rightarrow> (reg, Error 500 ''Failed to upload or add image'')
                   | Some img \<Rightarrow>
                       (case found of
                          Own s \<Rightarrow>
                            let drawWidth = (if truthy width then parseInt width
                                             else Fin (natural_width img));
                                drawHeight = (if truthy height then parseInt height
                                              else Fin (natural_height img))
                            in (reg(ident \<mapsto> s
                                  \<lparr>canvas := draw (canvas s)
                                     [DrawImage img (JNum (parseInt x)) (JNum (parseInt y))
                                        (JNum drawWidth) (JNum drawHeight)],
                                   elements := elements s
                                     @ [Image JUndefined (JNum (parseInt x)) (JNum (parseInt y))
                                          (JNum drawWidth) (JNum drawHeight)]\<rparr>),
                                Message ''Image uploaded and added successfully'')
                        | _ \<Rightarrow> (reg, Error 500 ''Failed to upload or add image'')))))"

text \<open>
  \<^verbatim>\<open>GET /:id/export/pdf\<close>. \<open>stamp\<close> is the time at which the document is created. The
  PDF library writes a number of the document only when it lies strictly between
  \<open>-10^21\<close> and \<open>10^21\<close>, and throws otherwise, so for \<^verbatim>\<open>NaN\<close> too: a session whose
  declared width or height is \<^verbatim>\<open>NaN\<close> cannot be exported, and the catch block answers
  500. The reply carries the attachment's file name and the document.
\<close>

fun pdf_number :: "number \<Rightarrow> bool" where
  "pdf_number NaN = False"
| "pdf_number (Fin n) =
     (case nearest_double (nat \<bar>n\<bar>) of None \<Rightarrow> False | Some x \<Rightarrow> x < 10 ^ 21)"

definition export_pdf :: "nat \<Rightarrow> registry \<Rightarrow> string \<Rightarrow> registry \<times> reply" where
  "export_pdf stamp reg ident =
     (case get_canvas reg ident of
        Missing \<Rightarrow> (reg, Error 404 ''Canvas not found'')
      | Inherited \<Rightarrow> (reg, Error 500 ''Failed to export PDF'')
      | Own s \<Rightarrow>
          let buffer = toBuffer (canvas s) in
          if \<not> pdf_number (width s) \<or> \<not> pdf_number (height s)
          then (reg, Error 500 ''Failed to export PDF'')
          else
            (reg, PdfOk (''canvas-'' @ ident @ ''.pdf'')
                    \<lparr>page_size = (width s, height s), compress = True,
                     info_Title = ''Canvas Export'', info_Author = ''Canvas Builder API'',
                     info_Creator = ''Canvas Builder API'', info_CreationDate = stamp,
                     page_image = buffer, image_at = (0, 0),
                     image_size = (width s, height s)\<rparr>))"

text \<open>\<^verbatim>\<open>GET /:id/preview\<close>\<close>

definition preview :: "registry \<Rightarrow> string \<Rightarrow> registry \<times> reply" where
  "preview reg ident =
     (case get_canvas reg ident of
        Missing \<Rightarrow> (reg, Error 404 ''Canvas not found'')
      | Inherited \<Rightarrow> (reg, Error 500 ''Failed to get preview'')
      | Own s \<Rightarrow> (reg, PngOk (toBuffer (canvas s))))"

text \<open>\<^verbatim>\<open>GET /:id/info\<close>\<close>

definition info :: "registry \<Rightarrow> string \<Rightarrow> registry \<times> reply" where
  "info reg ident =
     (case get_canvas reg ident of
        Missing \<Rightarrow> (reg, Error 404 ''Canvas not found'')
      | Inherited \<Rightarrow> (reg, Error 500 ''Failed to get canvas info'')
      | Own s \<Rightarrow> (reg, InfoOk ident (width s) (height s) (length (elements s)) (elements s)))"

text \<open>\<^verbatim>\<open>DELETE /:id\<close>\<close>

definition delete_canvas :: "registry \<Rightarrow> string \<Rightarrow> registry \<times> reply" where
  "delete_canvas reg ident =
     (case get_canvas reg ident of
        Missing \<Rightarrow> (reg, Error 404 ''Canvas not found'')
      | _ \<Rightarrow> (reg(ident := None), Message ''Canvas deleted successfully''))"

subsection \<open>Sequences of requests\<close>

text \<open>The five add routes, each with the body it receives and what the environment
  answers while it is served (the image loader's result, the uploaded file).\<close>

datatype add_op =
    AddRectangle body
  | AddCircle body
  | AddText body
  | AddImage "jsval \<Rightarrow> image option" body
  | AddImageUpload "buffer \<Rightarrow> image option" "buffer option" body

fun add :: "registry \<Rightarrow> string \<Rightarrow> add_op \<Rightarrow> registry \<times> reply" where
  "add reg ident (AddRectangle body) = add_rectangle reg ident body"
| "add reg ident (AddCircle body) = add_circle reg ident body"
| "add reg ident (AddText body) = add_text reg ident body"
| "add reg ident (AddImage loadImage body) = add_image loadImage reg ident body"
| "add reg ident (AddImageUpload loadImage upload body)
     = add_image_upload loadImage reg ident upload body"

text \<open>A request as the router receives it, together with what the environment answers
  while it is served (the generated UUID, the time of an export).\<close>

datatype request =
    Init string body
  | Add string add_op
  | ExportPdf nat string
  | Preview string
  | Info string
  | Delete string

fun handle :: "registry \<Rightarrow> request \<Rightarrow> registry \<times> reply" where
  "handle reg (Init uuid body) = init uuid reg body"
| "handle reg (Add ident a) = add reg ident a"
| "handle reg (ExportPdf stamp ident) = export_pdf stamp reg ident"
| "handle reg (Preview ident) = preview reg ident"
| "handle reg (Info ident) = info reg ident"
| "handle reg (Delete ident) = delete_canvas reg ident"

fun run :: "registry \<Rightarrow> request list \<Rightarrow> registry" where
  "run reg [] = reg"
| "run reg (r # rs) = run (fst (handle reg r)) rs"

text \<open>Whether serving a request stores a session under the identifier \<open>ident\<close>.\<close>

fun generates :: "request \<Rightarrow> string \<Rightarrow> bool" where
  "generates (Init uuid body) ident = (uuid = ident)"
| "generates r ident = False"

text \<open>The shape of what \<^verbatim>\<open>uuidv4()\<close> returns: 36 characters, hexadecimal digits in groups
  of 8, 4, 4, 4 and 12 with a dash between the groups.\<close>

definition uuid_dashes :: "bool list" where
  "uuid_dashes =
     replicate 8 False @ [True] @ replicate 4 False @ [True] @ replicate 4 False @ [True]
       @ replicate 4 False @ [True] @ replicate 12 False"

definition is_uuid :: "string \<Rightarrow> bool" where
  "is_uuid u =
     (map (\<lambda>c. c = CHR ''-'') u = uuid_dashes
      \<and> list_all (\<lambda>c. c \<in> set ''0123456789abcdef-'') u)"



section \<open>The error taxonomy of the specification\<close>

text \<open>The specification names the failures; the handlers answer with a status and a
  message. This is the correspondence.\<close>

definition SessionNotFound :: reply where
  "SessionNotFound = Error 404 ''Canvas not found''"

definition ImageLoadFailure :: reply where
  "ImageLoadFailure = Error 500 ''Failed to load or add image''"

definition InvalidDimensions :: "reply \<Rightarrow> bool" where
  "InvalidDimensions r =
     (r \<in> set [Error 400 ''Width and height are required'',
               Error 400 ''Dimensions must be positive numbers'',
               Error 400 ''Dimensions cannot exceed 5000px''])"

definition MissingField :: "reply \<Rightarrow> bool" where
  "MissingField r =
     (r \<in> set [Error 400 ''x, y, width, and height are required'',
               Error 400 ''x, y, and radius are required'',
               Error 400 ''text, x, and y are required'',
               Error 400 ''url, x, and y are required'',
               Error 400 ''Image file is required''])"

section \<open>Resolved elements\<close>


text \<open>What holds of every element the handlers log: all fields of the variant are
  present and the fields a handler tests for truth are truthy; an image either has a
  truthy source reference, or none at all and numbers for its position and draw box.\<close>

fun is_number :: "jsval \<Rightarrow> bool" where
  "is_number (JNum n) = True"
| "is_number v = False"

fun resolved :: "element \<Rightarrow> bool" where
  "resolved (Rectangle x y w h c f) =
     (JUndefined \<notin> set [x, y, c, f] \<and> truthy w \<and> truthy h)"
| "resolved (Circle x y r c f) = (JUndefined \<notin> set [x, y, c, f] \<and> truthy r)"
| "resolved (Text t x y fs ff c a) = (JUndefined \<notin> set [x, y, fs, ff, c, a] \<and> truthy t)"
| "resolved (Image url x y w h) =
     (if url = JUndefined then list_all is_number [x, y, w, h]
      else truthy url \<and> JUndefined \<notin> set [x, y, w, h])"



text \<open>What a request can do to the session \<open>ident\<close>: the registry differs in that
  session only, which has received context calls and at most one more, resolved, log
  entry.\<close>

definition touched :: "registry \<Rightarrow> string \<Rightarrow> registry \<Rightarrow> bool" where
  "touched reg ident reg' =
     (\<exists>s cs es. reg ident = Some s \<and> list_all resolved es \<and> length es \<le> 1
        \<and> reg' = reg(ident \<mapsto> s\<lparr>canvas := draw (canvas s) cs, elements := elements s @ es\<rparr>))"

text \<open>What holds of the dimensions of every session init creates: each declared
  dimension is \<^verbatim>\<open>NaN\<close>, or an integer from 1 to 5000 that is the surface's own pixel
  dimension.\<close>

definition sized :: "session \<Rightarrow> bool" where
  "sized s =
     ((width s = NaN
        \<or> (width s = Fin (int (cwidth (canvas s)))
            \<and> 0 < cwidth (canvas s) \<and> cwidth (canvas s) \<le> 5000))
      \<and> (height s = NaN
        \<or> (height s = Fin (int (cheight (canvas s)))
            \<and> 0 < cheight (canvas s) \<and> cheight (canvas s) \<le> 5000)))"

section \<open>Solid rectangles and previews\<close>




section \<open>Example data\<close>

definition uuid1 :: string where
  "uuid1 = ''3f2b8c1e-5d4a-4e6f-9a7b-0c1d2e3f4a5b''"

definition uuid2 :: string where
  "uuid2 = ''0a1b2c3d-4e5f-4a6b-8c7d-9e0f1a2b3c4d''"

text \<open>The registry after \<^verbatim>\<open>POST /init {"width": 4, "height": 3}\<close> on a fresh server, and
  the session it holds.\<close>

definition small_body :: body where
  "small_body = no_fields(''width'' := JNum (Fin 4), ''height'' := JNum (Fin 3))"

definition small_registry :: registry where
  "small_registry = run Map.empty [Init uuid1 small_body]"

definition small_session :: session where
  "small_session =
     \<lparr>canvas = \<lparr>cwidth = 4, cheight = 3,
                 calls = [SetFillStyle (JStr ''#ffffff''),
                          FillRect (JNum (Fin 0)) (JNum (Fin 0)) (JNum (Fin 4)) (JNum (Fin 3))]\<rparr>,
      width = Fin 4, height = Fin 3, elements = []\<rparr>"

text \<open>\<^verbatim>\<open>POST /init {"width": "abc", "height": "abc"}\<close>\<close>

definition abc_body :: body where
  "abc_body = no_fields(''width'' := JStr ''abc'', ''height'' := JStr ''abc'')"



definition unreachable :: "jsval \<Rightarrow> image option" where
  "unreachable url = None"














section \<open>Properties\<close>

subsection \<open>Values\<close>

lemma nearest_double_small: "m < 2 ^ 53 \<Longrightarrow> nearest_double m = Some m"
  by (simp add: nearest_double_def)

lemma parseInt_small: "\<bar>k\<bar> < 2 ^ 53 \<Longrightarrow> parseInt (JNum (Fin k)) = Fin k"
proof -
  assume k: "\<bar>k\<bar> < 2 ^ 53"
  then have m: "nat \<bar>k\<bar> < 2 ^ 53" by (simp add: nat_less_iff)
  then have nd: "nearest_double (nat \<bar>k\<bar>) = Some (nat \<bar>k\<bar>)" by (rule nearest_double_small)
  have "(2::nat) ^ 53 < 10 ^ 21" by simp
  with m have d: "nat \<bar>k\<bar> < 10 ^ 21" by (rule less_trans)
  have s: "sgn k * int (nat \<bar>k\<bar>) = k" by (cases "k = 0") (simp_all add: sgn_if)
  have "parseInt (JNum (Fin k)) = Fin (sgn k * int (nat \<bar>k\<bar>))"
    using d by (simp only: parseInt.simps parseInt_number.simps nd option.case if_True)
  then show ?thesis by (simp only: s)
qed

lemma to_uint32_small: "0 \<le> w \<Longrightarrow> w < 2 ^ 32 \<Longrightarrow> to_uint32 (Fin w) = nat w"
proof -
  assume w: "0 \<le> w" "w < 2 ^ 32"
  have "(2::int) ^ 32 < 2 ^ 53" by simp
  with w have "w < 2 ^ 53" by simp
  with w have m: "nat \<bar>w\<bar> < 2 ^ 53" by (simp add: nat_less_iff)
  then have nd: "nearest_double (nat \<bar>w\<bar>) = Some (nat \<bar>w\<bar>)" by (rule nearest_double_small)
  from w have s: "sgn w * int (nat \<bar>w\<bar>) = w" by (cases "w = 0") (simp_all add: sgn_if)
  have "to_uint32 (Fin w) = nat ((sgn w * int (nat \<bar>w\<bar>)) mod 2 ^ 32)"
    by (simp only: to_uint32.simps nd option.case)
  also have "\<dots> = nat (w mod 2 ^ 32)" by (simp only: s)
  also have "\<dots> = nat w" using w by simp
  finally show ?thesis .
qed

lemma truthy_parse_pos: "parseInt v = Fin n \<Longrightarrow> 0 < n \<Longrightarrow> truthy v"
proof (cases v)
  case (JStr s)
  assume p: "parseInt v = Fin n"
  have "s \<noteq> []"
  proof
    assume "s = []"
    with JStr p show False by (simp add: parseInt_string_def)
  qed
  with JStr show ?thesis by simp
next
  case (JNum m)
  assume p: "parseInt v = Fin n" and n: "0 < n"
  show ?thesis
  proof (cases m)
    case NaN
    with JNum p show ?thesis by simp
  next
    case (Fin k)
    have "k \<noteq> 0"
    proof
      assume "k = 0"
      with JNum Fin p n show False by (simp add: nearest_double_def)
    qed
    with JNum Fin show ?thesis by simp
  qed
qed simp_all

lemma default_to_defined:
  "d \<noteq> JUndefined \<Longrightarrow> default_to v d \<noteq> JUndefined"
  "d \<noteq> JUndefined \<Longrightarrow> JUndefined \<noteq> default_to v d"
  by (cases v; simp)+


lemma js_or_defined:
  "b \<noteq> JUndefined \<Longrightarrow> js_or a b \<noteq> JUndefined"
  "b \<noteq> JUndefined \<Longrightarrow> JUndefined \<noteq> js_or a b"
  by (auto simp: js_or_def)

lemma truthy_defined: "truthy v \<Longrightarrow> v \<noteq> JUndefined"
  by auto

lemma parse_abc: "parseInt_string ''abc'' = NaN"
  by (simp add: parseInt_string_def is_space_def wide_spaces_def digit_of_def)

lemma hex_examples:
  "hex_colour (JStr ''#ff0000'') = Some (255, 0, 0)"
  "hex_colour (JStr ''#0000ff'') = Some (0, 0, 255)"
  "hex_colour (JStr ''#000000'') = Some (0, 0, 0)"
  "hex_colour (JStr ''#ffffff'') = Some (255, 255, 255)"
  by (simp_all add: hex_colour_def hex_byte_def digit_of_def)

subsection \<open>Lookups and the example data\<close>

lemma Own_lookup: "reg ident = Some s \<Longrightarrow> get_canvas reg ident = Own s"
  by (simp add: get_canvas_def)

lemma get_canvas_Own: "get_canvas reg ident = Own s \<Longrightarrow> reg ident = Some s"
  by (auto simp: get_canvas_def split: option.splits if_splits)

lemma missing_iff:
  "get_canvas reg ident = Missing \<longleftrightarrow> reg ident = None \<and> ident \<notin> set object_prototype_keys"
  by (simp add: get_canvas_def split: option.splits)

lemma uuid_not_inherited: "is_uuid u \<Longrightarrow> u \<notin> set object_prototype_keys"
proof
  assume u: "is_uuid u" and k: "u \<in> set object_prototype_keys"
  from u have "length (map (\<lambda>c. c = CHR ''-'') u) = length uuid_dashes"
    by (simp add: is_uuid_def)
  then have "length u = 36" by (simp add: uuid_dashes_def)
  with k show False by (auto simp: object_prototype_keys_def)
qed

lemma is_uuid_uuid1: "is_uuid uuid1"
  by (simp add: is_uuid_def uuid_dashes_def uuid1_def eval_nat_numeral)

lemma is_uuid_uuid2: "is_uuid uuid2"
  by (simp add: is_uuid_def uuid_dashes_def uuid2_def eval_nat_numeral)

lemma uuid1_neq_uuid2: "uuid1 \<noteq> uuid2" "uuid2 \<noteq> uuid1"
  by (simp_all add: uuid1_def uuid2_def)

lemma small_init: "fst (init uuid Map.empty small_body) = [uuid \<mapsto> small_session]"
  by (simp add: init_def Let_def small_body_def no_fields_def small_session_def draw_def
      createCanvas_def parseInt_small to_uint32_small del: parseInt.simps to_uint32.simps)

lemma small_registry_eq: "small_registry = [uuid1 \<mapsto> small_session]"
  by (simp add: small_registry_def small_init)

lemma small_registry_uuid1: "small_registry uuid1 = Some small_session"
  by (simp add: small_registry_eq)









subsection \<open>Creating a session\<close>

text \<open>
  Claim C8. An init request whose width and height read (through \<^verbatim>\<open>parseInt\<close>) as integers
  between 1 and 5000 succeeds: the reply carries the generated identifier and the two
  dimensions, the registry gains one session under that identifier, the session's
  surface has exactly those pixel dimensions and every pixel of it is white, its element
  log is empty, and \<^verbatim>\<open>info\<close> reports an element count of 0.
\<close>

theorem init_valid_dimensions:
  assumes "parseInt (body ''width'') = Fin w" and "parseInt (body ''height'') = Fin h"
    and "0 < w" and "w \<le> 5000" and "0 < h" and "h \<le> 5000"
  shows "\<exists>s. init uuid reg body = (reg(uuid \<mapsto> s), InitOk uuid (Fin w) (Fin h))
      \<and> width s = Fin w \<and> height s = Fin h \<and> elements s = []
      \<and> int (cwidth (canvas s)) = w \<and> int (cheight (canvas s)) = h
      \<and> (\<forall>i j. i < cwidth (canvas s) \<and> j < cheight (canvas s)
            \<longrightarrow> pixel_at (canvas s) i j = white)
      \<and> snd (info (reg(uuid \<mapsto> s)) uuid) = InfoOk uuid (Fin w) (Fin h) 0 []"
proof -
  let ?c = "draw (createCanvas (Fin w) (Fin h))
              [SetFillStyle (JStr ''#ffffff''),
               FillRect (JNum (Fin 0)) (JNum (Fin 0)) (JNum (Fin w)) (JNum (Fin h))]"
  let ?s = "\<lparr>canvas = ?c, width = Fin w, height = Fin h, elements = []\<rparr>"
  have tw: "truthy (body ''width'')" and th: "truthy (body ''height'')"
    using assms by (auto intro: truthy_parse_pos)
  have run: "init uuid reg body = (reg(uuid \<mapsto> ?s), InitOk uuid (Fin w) (Fin h))"
    using assms tw th by (simp add: init_def Let_def)
  have uw: "to_uint32 (Fin w) = nat w" and uh: "to_uint32 (Fin h) = nat h"
    using assms by (simp_all add: to_uint32_small del: to_uint32.simps)
  have dw: "int (cwidth ?c) = w" and dh: "int (cheight ?c) = h"
    using assms uw uh by (simp_all add: draw_def createCanvas_def del: to_uint32.simps)
  have co: "coordinate 0" "coordinate w" "coordinate h"
    using assms by (simp_all add: coordinate_def)
  have px: "pixel_at ?c i j = white" if "i < cwidth ?c" and "j < cheight ?c" for i j
  proof -
    from that dw dh have "in_box 0 0 w h i j"
      by (simp add: in_box_def)
    then show ?thesis
      using assms co
      by (simp add: pixel_at_def draw_def createCanvas_def fresh_raster_def hex_examples(4)
          ink_def white_def del: to_uint32.simps)
  qed
  have inf: "snd (info (reg(uuid \<mapsto> ?s)) uuid) = InfoOk uuid (Fin w) (Fin h) 0 []"
    by (simp add: info_def get_canvas_def)
  show ?thesis
    using run dw dh px inf by (intro exI [of _ ?s]) simp
qed

text \<open>The claim's own example: 800 by 600.\<close>

theorem init_valid_dimensions_witness:
  "parseInt (JNum (Fin 800)) = Fin 800 \<and> parseInt (JNum (Fin 600)) = Fin 600
   \<and> snd (init uuid1 Map.empty
        (no_fields(''width'' := JNum (Fin 800), ''height'' := JNum (Fin 600))))
      = InitOk uuid1 (Fin 800) (Fin 600)
   \<and> elements (the (fst (init uuid1 Map.empty
        (no_fields(''width'' := JNum (Fin 800), ''height'' := JNum (Fin 600)))) uuid1)) = []
   \<and> pixel_at (canvas (the (fst (init uuid1 Map.empty
        (no_fields(''width'' := JNum (Fin 800), ''height'' := JNum (Fin 600)))) uuid1)))
        799 599 = white"
proof -
  let ?b = "no_fields(''width'' := JNum (Fin 800), ''height'' := JNum (Fin 600))"
  have p: "parseInt (JNum (Fin 800)) = Fin 800" "parseInt (JNum (Fin 600)) = Fin 600"
    by (simp_all add: parseInt_small del: parseInt.simps)
  then have w: "parseInt (?b ''width'') = Fin 800" and h: "parseInt (?b ''height'') = Fin 600"
    by (simp_all del: parseInt.simps)
  have "\<exists>s. init uuid1 Map.empty ?b = ([uuid1 \<mapsto> s], InitOk uuid1 (Fin 800) (Fin 600))
      \<and> width s = Fin 800 \<and> height s = Fin 600 \<and> elements s = []
      \<and> int (cwidth (canvas s)) = 800 \<and> int (cheight (canvas s)) = 600
      \<and> (\<forall>i j. i < cwidth (canvas s) \<and> j < cheight (canvas s)
            \<longrightarrow> pixel_at (canvas s) i j = white)
      \<and> snd (info [uuid1 \<mapsto> s] uuid1) = InfoOk uuid1 (Fin 800) (Fin 600) 0 []"
    by (rule init_valid_dimensions [OF w h]) simp_all
  then obtain s where s: "init uuid1 Map.empty ?b = ([uuid1 \<mapsto> s], InitOk uuid1 (Fin 800) (Fin 600))"
    "elements s = []" "int (cwidth (canvas s)) = 800" "int (cheight (canvas s)) = 600"
    "\<forall>i j. i < cwidth (canvas s) \<and> j < cheight (canvas s) \<longrightarrow> pixel_at (canvas s) i j = white"
    by blast
  from s(3,4) have d: "cwidth (canvas s) = 800" "cheight (canvas s) = 600" by simp_all
  with s(5) have "pixel_at (canvas s) 799 599 = white"
    by simp
  with s p show ?thesis by (simp del: parseInt.simps)
qed

text \<open>What init refuses: a falsy width or height, and numbers outside 1 to 5000. A
  refusal leaves the registry as it was.\<close>

lemma init_rejects_falsy:
  assumes "\<not> truthy (body ''width'') \<or> \<not> truthy (body ''height'')"
  shows "init uuid reg body = (reg, Error 400 ''Width and height are required'')"
  using assms by (auto simp: init_def Let_def)

lemma init_rejects_bad_numbers:
  assumes "parseInt (body ''width'') = Fin w" and "parseInt (body ''height'') = Fin h"
    and "\<not> (0 < w \<and> w \<le> 5000 \<and> 0 < h \<and> h \<le> 5000)"
  shows "fst (init uuid reg body) = reg \<and> InvalidDimensions (snd (init uuid reg body))"
  using assms by (auto simp: init_def Let_def InvalidDimensions_def)

lemma init_error_keeps_registry:
  "snd (init uuid reg body) = Error status msg \<Longrightarrow> fst (init uuid reg body) = reg"
  by (auto simp: init_def Let_def split: if_splits)

text \<open>
  Claim C5 says that init fails with InvalidDimensions whenever \<open>width > 0\<close>,
  \<open>height > 0\<close>, \<open>width \<le> 5000\<close>, \<open>height \<le> 5000\<close> does not hold, and then creates no
  session. The handler tests \<^verbatim>\<open>w <= 0 || h <= 0\<close> and \<^verbatim>\<open>w > 5000 || h > 5000\<close> on the
  results of \<^verbatim>\<open>parseInt\<close>. For a width and height that are not numerals, such as the
  string \<^verbatim>\<open>"abc"\<close>, both results are \<^verbatim>\<open>NaN\<close>, every comparison is false, and the request
  is accepted: the reply is the success reply and a session with the dimensions
  \<^verbatim>\<open>NaN\<close> is stored.
\<close>

theorem init_accepts_non_numeric_dimensions:
  "init uuid1 Map.empty abc_body
     = ([uuid1 \<mapsto>
          \<lparr>canvas = \<lparr>cwidth = 0, cheight = 0,
                      calls = [SetFillStyle (JStr ''#ffffff''),
                               FillRect (JNum (Fin 0)) (JNum (Fin 0)) (JNum NaN) (JNum NaN)]\<rparr>,
           width = NaN, height = NaN, elements = []\<rparr>],
        InitOk uuid1 NaN NaN)"
  by (simp add: init_def Let_def abc_body_def no_fields_def parse_abc draw_def createCanvas_def)

text \<open>The reply is none of the init failures, and the registry has gained an entry.\<close>

theorem init_accepts_non_numeric_dimensions_witness:
  "\<not> InvalidDimensions (snd (init uuid1 Map.empty abc_body))
   \<and> fst (init uuid1 Map.empty abc_body) uuid1 \<noteq> None"
  using init_accepts_non_numeric_dimensions by (simp add: InvalidDimensions_def)

text \<open>The number \<^verbatim>\<open>1e21\<close> is accepted too: it prints as \<^verbatim>\<open>1e+21\<close>, of which \<^verbatim>\<open>parseInt\<close>
  reads 1, and the session is 1 by 1.\<close>

lemma init_accepts_huge_number:
  "snd (init uuid1 Map.empty
      (no_fields(''width'' := JNum (Fin (10 ^ 21)), ''height'' := JNum (Fin (10 ^ 21)))))
     = InitOk uuid1 (Fin 1) (Fin 1)"
proof -
  have b: "binary_length (10 ^ 21) = 70"
    by simp
  have n: "nearest_double (10 ^ 21) = Some (10 ^ 21)"
    by (simp add: nearest_double_def b Let_def)
  have b2: "binary_length (2 * 10 ^ 21) = 71"
    by simp
  have n2: "nearest_double (2 * 10 ^ 21) = Some (2 * 10 ^ 21)"
    by (simp add: nearest_double_def b2 Let_def)
  have dl: "decimal_length (10 ^ 21) = 22"
    by simp
  have e: "exponent_head (10 ^ 21) = 1"
    using n2 by (simp add: exponent_head_def dl Let_def)
  have p: "parseInt (JNum (Fin (10 ^ 21))) = Fin 1"
    using n e by simp
  show ?thesis
    using p by (simp add: init_def Let_def no_fields_def del: parseInt.simps)
qed

subsection \<open>Unknown identifiers\<close>

text \<open>When \<^verbatim>\<open>canvases[id]\<close> is \<^verbatim>\<open>undefined\<close>, every route answers 404 and returns the
  registry unchanged.\<close>

lemma unknown_id_not_found:
  assumes "get_canvas reg ident = Missing"
  shows "add_rectangle reg ident body = (reg, SessionNotFound)"
    and "add_circle reg ident body = (reg, SessionNotFound)"
    and "add_text reg ident body = (reg, SessionNotFound)"
    and "add_image loadUrl reg ident body = (reg, SessionNotFound)"
    and "add_image_upload loadBuffer reg ident file body = (reg, SessionNotFound)"
    and "export_pdf stamp reg ident = (reg, SessionNotFound)"
    and "preview reg ident = (reg, SessionNotFound)"
    and "info reg ident = (reg, SessionNotFound)"
    and "delete_canvas reg ident = (reg, SessionNotFound)"
  using assms
  by (simp_all add: add_rectangle_def add_circle_def add_text_def add_image_def
      add_image_upload_def export_pdf_def preview_def info_def delete_canvas_def
      SessionNotFound_def Let_def)

text \<open>
  Claim C6 says that every route answers SessionNotFound for an identifier that is not
  in the registry. For an identifier that is a property name of \<^verbatim>\<open>Object.prototype\<close>, such
  as \<^verbatim>\<open>constructor\<close>, \<^verbatim>\<open>canvases[id]\<close> is truthy although no session is stored: on the
  empty registry \<^verbatim>\<open>DELETE /constructor\<close> answers 200 "Canvas deleted successfully", and
  info, preview, export and a well-formed add/rectangle answer 500.
\<close>

theorem inherited_name_is_not_refused:
  "delete_canvas Map.empty ''constructor''
     = (Map.empty, Message ''Canvas deleted successfully'')
   \<and> info Map.empty ''constructor'' = (Map.empty, Error 500 ''Failed to get canvas info'')
   \<and> preview Map.empty ''constructor'' = (Map.empty, Error 500 ''Failed to get preview'')
   \<and> export_pdf stamp Map.empty ''constructor''
       = (Map.empty, Error 500 ''Failed to export PDF'')
   \<and> add_rectangle Map.empty ''constructor''
        (no_fields(''x'' := JNum (Fin 0), ''y'' := JNum (Fin 0),
                   ''width'' := JNum (Fin 1), ''height'' := JNum (Fin 1)))
      = (Map.empty, Error 500 ''Failed to add rectangle'')"
  by (simp add: delete_canvas_def info_def preview_def export_pdf_def add_rectangle_def
      get_canvas_def object_prototype_keys_def no_fields_def Let_def)

text \<open>No session is stored under the name, and the replies are not SessionNotFound.\<close>

theorem inherited_name_is_not_refused_witness:
  "Map.empty ''constructor'' = (None :: session option)
   \<and> snd (delete_canvas Map.empty ''constructor'') \<noteq> SessionNotFound
   \<and> snd (info Map.empty ''constructor'') \<noteq> SessionNotFound"
  using inherited_name_is_not_refused by (simp add: SessionNotFound_def)

subsection \<open>Required fields that are present but falsy\<close>

text \<open>
  Claim C10. On an existing session, a rectangle whose width or height is the number 0, a
  circle whose radius is 0 and a text whose content is the empty string are refused with
  the status 400 and the route's "... are required" message, although the field was
  supplied (the handlers test \<^verbatim>\<open>!width\<close>, \<^verbatim>\<open>!height\<close>, \<^verbatim>\<open>!radius\<close>, \<^verbatim>\<open>!text\<close>); the
  registry, and with it the session's surface and element log, is returned unchanged.
\<close>

theorem falsy_required_field_rejected:
  assumes "reg ident = Some s"
  shows "(body ''width'' = JNum (Fin 0) \<or> body ''height'' = JNum (Fin 0) \<longrightarrow>
            add_rectangle reg ident body
              = (reg, Error 400 ''x, y, width, and height are required'')
            \<and> MissingField (snd (add_rectangle reg ident body)))
       \<and> (body ''radius'' = JNum (Fin 0) \<longrightarrow>
            add_circle reg ident body = (reg, Error 400 ''x, y, and radius are required'')
            \<and> MissingField (snd (add_circle reg ident body)))
       \<and> (body ''text'' = JStr [] \<longrightarrow>
            add_text reg ident body = (reg, Error 400 ''text, x, and y are required'')
            \<and> MissingField (snd (add_text reg ident body)))"
proof (intro conjI impI)
  assume "body ''width'' = JNum (Fin 0) \<or> body ''height'' = JNum (Fin 0)"
  then have "\<not> truthy (body ''width'') \<or> \<not> truthy (body ''height'')" by auto
  then show r: "add_rectangle reg ident body
      = (reg, Error 400 ''x, y, width, and height are required'')"
    using assms by (auto simp: add_rectangle_def Let_def Own_lookup)
  show "MissingField (snd (add_rectangle reg ident body))"
    by (simp add: r MissingField_def)
next
  assume "body ''radius'' = JNum (Fin 0)"
  then show r: "add_circle reg ident body = (reg, Error 400 ''x, y, and radius are required'')"
    using assms by (simp add: add_circle_def Let_def Own_lookup)
  show "MissingField (snd (add_circle reg ident body))"
    by (simp add: r MissingField_def)
next
  assume "body ''text'' = JStr []"
  then show r: "add_text reg ident body = (reg, Error 400 ''text, x, and y are required'')"
    using assms by (simp add: add_text_def Let_def Own_lookup)
  show "MissingField (snd (add_text reg ident body))"
    by (simp add: r MissingField_def)
qed

text \<open>A rectangle of width 0, a circle of radius 0 and an empty text on the example
  session.\<close>

theorem falsy_required_field_rejected_witness:
  "small_registry uuid1 = Some small_session
   \<and> add_rectangle small_registry uuid1
        (no_fields(''x'' := JNum (Fin 1), ''y'' := JNum (Fin 1),
                   ''width'' := JNum (Fin 0), ''height'' := JNum (Fin 2)))
      = (small_registry, Error 400 ''x, y, width, and height are required'')
   \<and> add_circle small_registry uuid1
        (no_fields(''x'' := JNum (Fin 1), ''y'' := JNum (Fin 1), ''radius'' := JNum (Fin 0)))
      = (small_registry, Error 400 ''x, y, and radius are required'')
   \<and> add_text small_registry uuid1
        (no_fields(''x'' := JNum (Fin 1), ''y'' := JNum (Fin 1), ''text'' := JStr []))
      = (small_registry, Error 400 ''text, x, and y are required'')"
  using falsy_required_field_rejected [where reg = small_registry and ident = uuid1
      and s = small_session and body = "no_fields(''x'' := JNum (Fin 1), ''y'' := JNum (Fin 1),
                    ''width'' := JNum (Fin 0), ''height'' := JNum (Fin 2))"]
    falsy_required_field_rejected [where reg = small_registry and ident = uuid1
      and s = small_session and body = "no_fields(''x'' := JNum (Fin 1), ''y'' := JNum (Fin 1), ''radius'' := JNum (Fin 0))"]
    falsy_required_field_rejected [where reg = small_registry and ident = uuid1
      and s = small_session and body = "no_fields(''x'' := JNum (Fin 1), ''y'' := JNum (Fin 1), ''text'' := JStr [])"]
    small_registry_uuid1
  by simp

subsection \<open>A failed image load\<close>

text \<open>
  Claim C2. When \<^verbatim>\<open>add/image\<close> on an existing session reaches the fetch (the URL is truthy
  and \<open>x\<close>, \<open>y\<close> are present) and the fetch or decode fails, the reply is the image load
  failure and the registry is unchanged: \<^verbatim>\<open>info\<close> and \<^verbatim>\<open>preview\<close> afterwards report the same
  element log, element count and surface as before the call.
\<close>

theorem failed_image_load_changes_nothing:
  assumes "reg ident = Some s" and "loadImage (body ''url'') = None"
    and "truthy (body ''url'')" and "body ''x'' \<noteq> JUndefined" and "body ''y'' \<noteq> JUndefined"
  shows "add_image loadImage reg ident body = (reg, ImageLoadFailure)
       \<and> info (fst (add_image loadImage reg ident body)) ident
           = (reg, InfoOk ident (width s) (height s) (length (elements s)) (elements s))
       \<and> preview (fst (add_image loadImage reg ident body)) ident
           = (reg, PngOk (toBuffer (canvas s)))"
  using assms
  by (simp add: add_image_def Let_def Own_lookup ImageLoadFailure_def info_def preview_def)

text \<open>A URL that does not resolve, on the example session.\<close>

theorem failed_image_load_changes_nothing_witness:
  "small_registry uuid1 = Some small_session
   \<and> truthy (JStr ''http://nowhere.invalid/a.png'')
   \<and> add_image unreachable small_registry uuid1
        (no_fields(''url'' := JStr ''http://nowhere.invalid/a.png'',
                   ''x'' := JNum (Fin 0), ''y'' := JNum (Fin 0)))
      = (small_registry, Error 500 ''Failed to load or add image'')
   \<and> info (fst (add_image unreachable small_registry uuid1
        (no_fields(''url'' := JStr ''http://nowhere.invalid/a.png'',
                   ''x'' := JNum (Fin 0), ''y'' := JNum (Fin 0))))) uuid1
      = (small_registry, InfoOk uuid1 (Fin 4) (Fin 3) 0 [])"
proof -
  let ?b = "no_fields(''url'' := JStr ''http://nowhere.invalid/a.png'',
                      ''x'' := JNum (Fin 0), ''y'' := JNum (Fin 0))"
  have "add_image unreachable small_registry uuid1 ?b = (small_registry, ImageLoadFailure)
       \<and> info (fst (add_image unreachable small_registry uuid1 ?b)) uuid1
           = (small_registry, InfoOk uuid1 (width small_session) (height small_session)
                (length (elements small_session)) (elements small_session))
       \<and> preview (fst (add_image unreachable small_registry uuid1 ?b)) uuid1
           = (small_registry, PngOk (toBuffer (canvas small_session)))"
    by (rule failed_image_load_changes_nothing)
      (simp_all add: small_registry_uuid1 unreachable_def)
  then show ?thesis
    using small_registry_uuid1 by (auto simp: ImageLoadFailure_def small_session_def)
qed

subsection \<open>Export\<close>








subsection \<open>The effect of a request on a registry entry\<close>

text \<open>An add either returns the registry unchanged or draws on its session and pushes
  at most one resolved element; the reading routes return the registry unchanged; init
  adds an entry with an empty log; delete removes one.\<close>

lemma touched_push:
  "reg ident = Some s \<Longrightarrow> resolved e \<Longrightarrow>
   reg' = reg(ident \<mapsto> s\<lparr>canvas := draw (canvas s) cs, elements := elements s @ [e]\<rparr>) \<Longrightarrow>
   touched reg ident reg'"
  unfolding touched_def by (intro exI [of _ s] exI [of _ cs] exI [of _ "[e]"]) simp

lemma touched_draw:
  "reg ident = Some s \<Longrightarrow> reg' = reg(ident \<mapsto> s\<lparr>canvas := draw (canvas s) cs\<rparr>) \<Longrightarrow>
   touched reg ident reg'"
  unfolding touched_def by (intro exI [of _ s] exI [of _ cs] exI [of _ "[]"]) simp

lemma add_rectangle_entry:
  assumes "add_rectangle reg ident body = (reg', rep)"
  shows "reg' = reg \<or> touched reg ident reg'"
proof (cases "get_canvas reg ident")
  case (Own s)
  then have s: "reg ident = Some s" by (rule get_canvas_Own)
  show ?thesis
  proof (cases "body ''x'' = JUndefined \<or> body ''y'' = JUndefined
      \<or> \<not> truthy (body ''width'') \<or> \<not> truthy (body ''height'')")
    case True
    with assms Own show ?thesis by (auto simp: add_rectangle_def Let_def)
  next
    case False
    then have "resolved (Rectangle (body ''x'') (body ''y'') (body ''width'') (body ''height'')
        (default_to (body ''color'') (JStr ''#000000''))
        (default_to (body ''isFilled'') (JBool True)))"
      by (auto simp: default_to_defined)
    with assms Own False s show ?thesis
      by (intro disjI2, elim touched_push) (auto simp: add_rectangle_def Let_def)
  qed
qed (use assms in \<open>auto simp: add_rectangle_def Let_def split: if_splits\<close>)

lemma add_circle_entry:
  assumes "add_circle reg ident body = (reg', rep)"
  shows "reg' = reg \<or> touched reg ident reg'"
proof (cases "get_canvas reg ident")
  case (Own s)
  then have s: "reg ident = Some s" by (rule get_canvas_Own)
  show ?thesis
  proof (cases "body ''x'' = JUndefined \<or> body ''y'' = JUndefined \<or> \<not> truthy (body ''radius'')")
    case True
    with assms Own show ?thesis by (auto simp: add_circle_def Let_def)
  next
    case False
    note valid = this
    show ?thesis
    proof (cases "arc_throws (body ''x'') (body ''y'') (body ''radius'')")
      case True
      with assms Own valid s show ?thesis
        by (intro disjI2, elim touched_draw) (auto simp: add_circle_def Let_def)
    next
      case False
      from valid have "resolved (Circle (body ''x'') (body ''y'') (body ''radius'')
          (default_to (body ''color'') (JStr ''#000000''))
          (default_to (body ''isFilled'') (JBool True)))"
        by (auto simp: default_to_defined)
      with assms Own valid False s show ?thesis
        by (intro disjI2, elim touched_push) (auto simp: add_circle_def Let_def)
    qed
  qed
qed (use assms in \<open>auto simp: add_circle_def Let_def split: if_splits\<close>)

lemma add_text_entry:
  assumes "add_text reg ident body = (reg', rep)"
  shows "reg' = reg \<or> touched reg ident reg'"
proof (cases "get_canvas reg ident")
  case (Own s)
  then have s: "reg ident = Some s" by (rule get_canvas_Own)
  show ?thesis
  proof (cases "\<not> truthy (body ''text'') \<or> body ''x'' = JUndefined \<or> body ''y'' = JUndefined")
    case True
    with assms Own show ?thesis by (auto simp: add_text_def Let_def)
  next
    case False
    then have "resolved (Text (body ''text'') (body ''x'') (body ''y'')
        (default_to (body ''fontSize'') (JNum (Fin 16)))
        (default_to (body ''fontFamily'') (JStr ''Arial''))
        (default_to (body ''color'') (JStr ''#000000''))
        (default_to (body ''align'') (JStr ''left'')))"
      by (auto simp: default_to_defined)
    with assms Own False s show ?thesis
      by (intro disjI2, elim touched_push) (auto simp: add_text_def Let_def)
  qed
qed (use assms in \<open>auto simp: add_text_def Let_def split: if_splits\<close>)

lemma add_image_entry:
  assumes "add_image loadImage reg ident body = (reg', rep)"
  shows "reg' = reg \<or> touched reg ident reg'"
proof (cases "get_canvas reg ident")
  case (Own s)
  then have s: "reg ident = Some s" by (rule get_canvas_Own)
  show ?thesis
  proof (cases "\<not> truthy (body ''url'') \<or> body ''x'' = JUndefined \<or> body ''y'' = JUndefined")
    case True
    with assms Own show ?thesis by (auto simp: add_image_def Let_def)
  next
    case False
    show ?thesis
    proof (cases "loadImage (body ''url'')")
      case None
      with assms Own False show ?thesis by (auto simp: add_image_def Let_def)
    next
      case (Some img)
      from False have "resolved (Image (body ''url'') (body ''x'') (body ''y'')
          (js_or (body ''width'') (JNum (Fin (natural_width img))))
          (js_or (body ''height'') (JNum (Fin (natural_height img)))))"
        by (auto simp: js_or_defined)
      with assms Own False s Some show ?thesis
        by (intro disjI2, elim touched_push) (auto simp: add_image_def Let_def)
    qed
  qed
qed (use assms in \<open>auto simp: add_image_def Let_def split: if_splits option.splits\<close>)

lemma add_image_upload_entry:
  assumes "add_image_upload loadImage reg ident upload body = (reg', rep)"
  shows "reg' = reg \<or> touched reg ident reg'"
proof (cases "get_canvas reg ident")
  case (Own s)
  then have s: "reg ident = Some s" by (rule get_canvas_Own)
  show ?thesis
  proof (cases upload)
    case None
    with assms Own show ?thesis by (auto simp: add_image_upload_def Let_def)
  next
    case (Some buf)
    note buf = this
    show ?thesis
    proof (cases "loadImage buf")
      case None
      with assms Own buf show ?thesis by (auto simp: add_image_upload_def Let_def)
    next
      case (Some img)
      have "resolved (Image JUndefined (JNum a) (JNum b) (JNum c) (JNum d))" for a b c d
        by simp
      with assms Own buf s Some show ?thesis
        by (intro disjI2, elim touched_push) (auto simp: add_image_upload_def Let_def)
    qed
  qed
qed (use assms in \<open>auto simp: add_image_upload_def Let_def split: if_splits option.splits\<close>)

lemma add_entry:
  assumes "add reg ident a = (reg', rep)"
  shows "reg' = reg \<or> touched reg ident reg'"
  using assms
  by (cases a)
    (auto dest: add_rectangle_entry add_circle_entry add_text_entry add_image_entry
      add_image_upload_entry)

lemma reads_only:
  "fst (export_pdf stamp reg ident) = reg" "fst (preview reg ident) = reg"
  "fst (info reg ident) = reg"
  by (simp_all add: export_pdf_def preview_def info_def Let_def split: lookup.splits)

lemma init_entry:
  assumes "init uuid reg body = (reg', rep)"
  shows "reg' = reg \<or> (\<exists>s. reg' = reg(uuid \<mapsto> s) \<and> elements s = [] \<and> sized s)"
proof (cases "reg' = reg")
  case False
  let ?w = "parseInt (body ''width'')" and ?h = "parseInt (body ''height'')"
  let ?s = "\<lparr>canvas = draw (createCanvas ?w ?h)
                [SetFillStyle (JStr ''#ffffff''),
                 FillRect (JNum (Fin 0)) (JNum (Fin 0)) (JNum ?w) (JNum ?h)],
             width = ?w, height = ?h, elements = []\<rparr>"
  from assms False have r: "reg' = reg(uuid \<mapsto> ?s)"
    and w: "\<not> num_le ?w 0" "\<not> num_gt ?w 5000" and h: "\<not> num_le ?h 0" "\<not> num_gt ?h 5000"
    by (auto simp: init_def Let_def split: if_splits)
  have d: "n = NaN \<or> (n = Fin (int (to_uint32 n)) \<and> 0 < to_uint32 n \<and> to_uint32 n \<le> 5000)"
    if "\<not> num_le n 0" "\<not> num_gt n 5000" for n
  proof (cases n)
    case NaN
    then show ?thesis by simp
  next
    case (Fin k)
    with that have k: "0 < k" "k \<le> 5000" by simp_all
    then have "to_uint32 (Fin k) = nat k" by (intro to_uint32_small) simp_all
    with Fin k show ?thesis by (simp del: to_uint32.simps)
  qed
  from d [OF w] d [OF h] have "sized ?s"
    by (simp add: sized_def draw_def createCanvas_def del: to_uint32.simps)
  with r show ?thesis by (intro disjI2 exI [of _ ?s]) simp
qed simp

lemma delete_entry:
  assumes "delete_canvas reg ident = (reg', rep)"
  shows "reg' = reg \<or> reg' = reg(ident := None)"
  using assms by (auto simp: delete_canvas_def split: lookup.splits)

lemma handle_entry:
  assumes "handle reg req = (reg', rep)"
  shows "reg' k = reg k
       \<or> (req = Delete k \<and> reg' k = None)
       \<or> (generates req k \<and> (\<exists>s. reg' k = Some s \<and> elements s = [] \<and> sized s))
       \<or> (\<exists>s cs es. reg k = Some s \<and> list_all resolved es
            \<and> reg' k = Some (s\<lparr>canvas := draw (canvas s) cs, elements := elements s @ es\<rparr>))"
proof (cases req)
  case (Init uuid body)
  with assms init_entry [of uuid reg body reg' rep] show ?thesis
    by (cases "k = uuid") auto
next
  case (Delete i)
  with assms delete_entry [of reg i reg' rep] show ?thesis
    by (cases "k = i") auto
next
  case (Add i a)
  with assms have "reg' = reg \<or> touched reg i reg'" by (auto dest: add_entry)
  then show ?thesis
  proof
    assume "reg' = reg"
    then show ?thesis by simp
  next
    assume "touched reg i reg'"
    then obtain s cs es where s: "reg i = Some s" and es: "list_all resolved es"
      and r: "reg' = reg(i \<mapsto> s\<lparr>canvas := draw (canvas s) cs, elements := elements s @ es\<rparr>)"
      unfolding touched_def by blast
    show ?thesis
    proof (cases "k = i")
      case True
      with s es r have "reg k = Some s \<and> list_all resolved es
          \<and> reg' k = Some (s\<lparr>canvas := draw (canvas s) cs, elements := elements s @ es\<rparr>)"
        by simp
      then show ?thesis by blast
    next
      case False
      with r show ?thesis by simp
    qed
  qed
next
  case (ExportPdf stamp i)
  with assms reads_only(1) [of stamp reg i] show ?thesis by auto
next
  case (Preview i)
  with assms reads_only(2) [of reg i] show ?thesis by auto
next
  case (Info i)
  with assms reads_only(3) [of reg i] show ?thesis by auto
qed

text \<open>A circle with the radius \<open>-1\<close> is answered 500 and not logged; the surface has
  received \<^verbatim>\<open>beginPath\<close>.\<close>

lemma negative_radius_is_refused:
  "add_circle small_registry uuid1
     (no_fields(''x'' := JNum (Fin 1), ''y'' := JNum (Fin 1), ''radius'' := JNum (Fin (- 1))))
   = (small_registry(uuid1 \<mapsto> small_session\<lparr>canvas := draw (canvas small_session) [BeginPath]\<rparr>),
      Error 500 ''Failed to add circle'')"
proof -
  have nd: "nearest_double (Suc 0) = Some (Suc 0)"
    by (simp add: nearest_double_def)
  show ?thesis
    using small_registry_uuid1
    by (simp add: add_circle_def Let_def Own_lookup no_fields_def arc_throws_def nd)
qed

subsection \<open>Deleting a session\<close>

lemma handle_none_stays:
  assumes "handle reg req = (reg', rep)" and "reg k = None" and "\<not> generates req k"
  shows "reg' k = None"
  using handle_entry [OF assms(1), of k] assms(2,3) by auto

lemma run_none_stays:
  "reg k = None \<Longrightarrow> list_all (\<lambda>r. \<not> generates r k) rs \<Longrightarrow> run reg rs k = None"
proof (induction rs arbitrary: reg)
  case Nil
  then show ?case by simp
next
  case (Cons r rs)
  obtain reg' rep where h: "handle reg r = (reg', rep)" by (cases "handle reg r")
  with Cons.prems have "reg' k = None" by (auto intro: handle_none_stays)
  with Cons h show ?case by simp
qed

text \<open>
  Claim C7. Deleting an existing session (stored, as every session is, under a UUID)
  removes its entry; after any further requests, among which no init draws the same
  UUID again, the identifier still resolves to nothing, and a second delete answers
  SessionNotFound.
\<close>

theorem deleted_session_stays_unresolvable:
  assumes "reg ident = Some s" and "is_uuid ident"
    and "list_all (\<lambda>r. \<not> generates r ident) rs"
  shows "delete_canvas reg ident = (reg(ident := None), Message ''Canvas deleted successfully'')
       \<and> get_canvas (run (reg(ident := None)) rs) ident = Missing
       \<and> delete_canvas (run (reg(ident := None)) rs) ident
           = (run (reg(ident := None)) rs, SessionNotFound)"
proof -
  from assms(1) have d: "delete_canvas reg ident
      = (reg(ident := None), Message ''Canvas deleted successfully'')"
    by (simp add: delete_canvas_def get_canvas_def)
  have "run (reg(ident := None)) rs ident = None"
    using assms(3) by (intro run_none_stays) simp_all
  with assms(2) have m: "get_canvas (run (reg(ident := None)) rs) ident = Missing"
    by (simp add: get_canvas_def uuid_not_inherited)
  then have "delete_canvas (run (reg(ident := None)) rs) ident
      = (run (reg(ident := None)) rs, SessionNotFound)"
    by (simp add: delete_canvas_def SessionNotFound_def)
  with d m show ?thesis by simp
qed

text \<open>Deleting the example session, then an init under another identifier and an info
  request for the deleted one.\<close>

theorem deleted_session_stays_unresolvable_witness:
  "small_registry uuid1 = Some small_session \<and> is_uuid uuid1
   \<and> list_all (\<lambda>r. \<not> generates r uuid1) [Init uuid2 small_body, Info uuid1]
   \<and> snd (delete_canvas small_registry uuid1) = Message ''Canvas deleted successfully''
   \<and> get_canvas (run (small_registry(uuid1 := None)) [Init uuid2 small_body, Info uuid1]) uuid1
       = Missing
   \<and> snd (delete_canvas
        (run (small_registry(uuid1 := None)) [Init uuid2 small_body, Info uuid1]) uuid1)
       = Error 404 ''Canvas not found''"
proof -
  have 1: "small_registry uuid1 = Some small_session" by (simp add: small_registry_eq)
  have 2: "list_all (\<lambda>r. \<not> generates r uuid1) [Init uuid2 small_body, Info uuid1]"
    by (simp add: uuid1_neq_uuid2)
  from deleted_session_stays_unresolvable [where reg = small_registry and ident = uuid1
      and s = small_session and rs = "[Init uuid2 small_body, Info uuid1]", OF 1 is_uuid_uuid1 2]
    1 2 is_uuid_uuid1
  show ?thesis by (simp add: SessionNotFound_def)
qed

subsection \<open>The element log\<close>



lemma handle_sized:
  assumes "handle reg req = (reg', rep)"
    and "\<And>s. reg k = Some s \<Longrightarrow> sized s"
    and "reg' k = Some s'"
  shows "sized s'"
  using handle_entry [OF assms(1), of k]
proof (elim disjE conjE exE, goal_cases)
  case 1
  with assms(3) have "reg k = Some s'" by simp
  then show ?case by (rule assms(2))
next
  case 2
  with assms(3) show ?case by simp
next
  case (3 s)
  with assms(3) show ?case by simp
next
  case (4 s cs es)
  from 4(1) have "sized s" by (rule assms(2))
  moreover from 4(3) assms(3)
  have "s' = s\<lparr>canvas := draw (canvas s) cs, elements := elements s @ es\<rparr>" by simp
  ultimately show ?case by (simp add: sized_def draw_def)
qed

lemma run_sized_from:
  assumes "\<And>k s. reg k = Some s \<Longrightarrow> sized s"
    and "run reg reqs ident = Some s'"
  shows "sized s'"
  using assms
proof (induction reqs arbitrary: reg)
  case Nil
  then show ?case by simp
next
  case (Cons r rs)
  obtain reg1 rep where h: "handle reg r = (reg1, rep)" by (cases "handle reg r")
  have "sized s" if "reg1 k = Some s" for k s
    using handle_sized [OF h _ that] Cons.prems(1) by blast
  moreover from Cons.prems(2) h have "run reg1 rs ident = Some s'" by simp
  ultimately show ?case by (rule Cons.IH)
qed

lemma run_sized: "run Map.empty reqs ident = Some s \<Longrightarrow> sized s"
  by (rule run_sized_from [of Map.empty reqs ident s]) simp_all










subsection \<open>Dimensions\<close>

text \<open>No request changes the declared dimensions of a session or the pixel dimensions
  of its surface, and a session created with numeric dimensions has a surface of exactly
  those dimensions.\<close>

lemma handle_keeps_dimensions:
  assumes "handle reg req = (reg', rep)" and "reg k = Some s" and "\<not> generates req k"
    and "reg' k = Some s'"
  shows "width s' = width s \<and> height s' = height s
       \<and> cwidth (canvas s') = cwidth (canvas s) \<and> cheight (canvas s') = cheight (canvas s)"
  using handle_entry [OF assms(1), of k] assms(2,3,4) by (auto simp: draw_def)

lemma run_keeps_dimensions:
  assumes "reg k = Some s" and "list_all (\<lambda>r. \<not> generates r k) rs"
    and "run reg rs k = Some s'"
  shows "width s' = width s \<and> height s' = height s
       \<and> cwidth (canvas s') = cwidth (canvas s) \<and> cheight (canvas s') = cheight (canvas s)"
  using assms
proof (induction rs arbitrary: reg s)
  case Nil
  then show ?case by simp
next
  case (Cons r rs)
  obtain reg1 rep where h: "handle reg r = (reg1, rep)" by (cases "handle reg r")
  from Cons.prems have rest: "list_all (\<lambda>r. \<not> generates r k) rs" and now: "\<not> generates r k"
    by simp_all
  from Cons.prems(3) h have run1: "run reg1 rs k = Some s'" by simp
  show ?case
  proof (cases "reg1 k")
    case None
    from None rest have "run reg1 rs k = None" by (rule run_none_stays)
    with run1 show ?thesis by simp
  next
    case (Some s1)
    from handle_keeps_dimensions [OF h Cons.prems(1) now Some]
      Cons.IH [OF Some rest run1]
    show ?thesis by simp
  qed
qed

lemma init_numeric_dimensions_agree:
  assumes "init uuid reg body = (reg', InitOk i (Fin w) (Fin h))"
  shows "\<exists>s. reg' uuid = Some s \<and> i = uuid \<and> width s = Fin (int (cwidth (canvas s)))
      \<and> height s = Fin (int (cheight (canvas s)))"
proof -
  from assms have p: "parseInt (body ''width'') = Fin w" "parseInt (body ''height'') = Fin h"
    and b: "0 < w" "w \<le> 5000" "0 < h" "h \<le> 5000"
    by (auto simp: init_def Let_def split: if_splits)
  from b have "to_uint32 (Fin w) = nat w" "to_uint32 (Fin h) = nat h"
    by (simp_all add: to_uint32_small del: to_uint32.simps)
  with assms p b show ?thesis
    by (auto simp: init_def Let_def draw_def createCanvas_def split: if_splits
        simp del: to_uint32.simps)
qed

text \<open>
  Claim C9 says that the pixel dimensions of a session's surface always equal its declared
  width and height. The session that init stores for the width and height \<^verbatim>\<open>"abc"\<close>
  declares \<^verbatim>\<open>NaN\<close> by \<^verbatim>\<open>NaN\<close>, its surface is 0 by 0 pixels, and \<^verbatim>\<open>info\<close> reports
  \<^verbatim>\<open>NaN\<close> for both.
\<close>

theorem nan_session_surface_mismatch:
  "width (the (fst (init uuid1 Map.empty abc_body) uuid1)) = NaN
   \<and> height (the (fst (init uuid1 Map.empty abc_body) uuid1)) = NaN
   \<and> cwidth (canvas (the (fst (init uuid1 Map.empty abc_body) uuid1))) = 0
   \<and> cheight (canvas (the (fst (init uuid1 Map.empty abc_body) uuid1))) = 0
   \<and> snd (info (fst (init uuid1 Map.empty abc_body)) uuid1) = InfoOk uuid1 NaN NaN 0 []"
  by (simp add: init_def Let_def abc_body_def no_fields_def parse_abc draw_def createCanvas_def
      info_def get_canvas_def)

text \<open>The declared width is not the surface's width.\<close>

theorem nan_session_surface_mismatch_witness:
  "width (the (fst (init uuid1 Map.empty abc_body) uuid1))
     \<noteq> Fin (int (cwidth (canvas (the (fst (init uuid1 Map.empty abc_body) uuid1)))))"
  using nan_session_surface_mismatch by simp

subsection \<open>Painting order\<close>









end
